theory Spec2Isabelle
  imports Main
begin

section \<open>Data model (shared/schema.ts)\<close>

text \<open>
  The tables of \<^verbatim>\<open>shared/schema.ts\<close> as records, one field per column. A column
  declared without \<^verbatim>\<open>notNull()\<close> is an \<open>option\<close>; a \<^verbatim>\<open>timestamp\<close> is a number of
  milliseconds; a \<^verbatim>\<open>serial\<close>/\<^verbatim>\<open>integer\<close> is an \<open>int\<close>.
\<close>

type_synonym timestamp = nat

datatype post_status = Draft | Scheduled | Posting | Posted | Failed

datatype privacy = Public | Friends | Private

record TikTokAccount =
  acc_id :: int
  acc_userId :: string
  tiktokUserId :: string
  username :: string
  displayName :: "string option"
  avatarUrl :: "string option"
  followerCount :: "int option"
  followingCount :: "int option"
  likesCount :: "int option"
  videoCount :: "int option"
  accessToken :: string
  refreshToken :: "string option"
  tokenExpiresAt :: "timestamp option"
  isActive :: "bool option"
  acc_createdAt :: "timestamp option"
  acc_updatedAt :: "timestamp option"

record Post =
  post_id :: int
  userId :: string
  tiktokAccountId :: int
  title :: string
  description :: "string option"
  hashtags :: "string list option"
  videoUrl :: string
  thumbnailUrl :: "string option"
  status :: "post_status option"
  scheduledAt :: "timestamp option"
  postedAt :: "timestamp option"
  tiktokPostId :: "string option"
  privacyLevel :: "privacy option"
  allowComments :: "bool option"
  allowDuet :: "bool option"
  allowStitch :: "bool option"
  errorMessage :: "string option"
  createdAt :: "timestamp option"
  updatedAt :: "timestamp option"

record PostAnalytics =
  pa_id :: int
  postId :: int
  viewCount :: "int option"
  likeCount :: "int option"
  commentCount :: "int option"
  shareCount :: "int option"
  playDuration :: "int option"
  averagePlayDuration :: "int option"
  profileViewCount :: "int option"
  pa_updatedAt :: "timestamp option"

text \<open>
  \<^verbatim>\<open>InsertPost\<close> as \<^verbatim>\<open>insertPostSchema\<close> validates it: four required fields, every
  other field optional (\<open>None\<close> is an absent key).
\<close>

record InsertPost =
  i_userId :: string
  i_tiktokAccountId :: int
  i_title :: string
  i_description :: "string option"
  i_hashtags :: "string list option"
  i_videoUrl :: string
  i_thumbnailUrl :: "string option"
  i_status :: "post_status option"
  i_scheduledAt :: "timestamp option"
  i_postedAt :: "timestamp option"
  i_tiktokPostId :: "string option"
  i_privacyLevel :: "privacy option"
  i_allowComments :: "bool option"
  i_allowDuet :: "bool option"
  i_allowStitch :: "bool option"
  i_errorMessage :: "string option"

text \<open>\<^verbatim>\<open>Partial<InsertPost>\<close>: every key optional; \<open>None\<close> is an absent key.\<close>

record PartialInsertPost =
  u_userId :: "string option"
  u_tiktokAccountId :: "int option"
  u_title :: "string option"
  u_description :: "string option"
  u_hashtags :: "string list option"
  u_videoUrl :: "string option"
  u_thumbnailUrl :: "string option"
  u_status :: "post_status option"
  u_scheduledAt :: "timestamp option"
  u_postedAt :: "timestamp option"
  u_tiktokPostId :: "string option"
  u_privacyLevel :: "privacy option"
  u_allowComments :: "bool option"
  u_allowDuet :: "bool option"
  u_allowStitch :: "bool option"
  u_errorMessage :: "string option"

text \<open>The object literal \<^verbatim>\<open>{}\<close> at type \<^verbatim>\<open>Partial<InsertPost>\<close>.\<close>

definition no_updates :: PartialInsertPost where
  "no_updates = \<lparr> u_userId = None, u_tiktokAccountId = None, u_title = None,
     u_description = None, u_hashtags = None, u_videoUrl = None, u_thumbnailUrl = None,
     u_status = None, u_scheduledAt = None, u_postedAt = None, u_tiktokPostId = None,
     u_privacyLevel = None, u_allowComments = None, u_allowDuet = None,
     u_allowStitch = None, u_errorMessage = None \<rparr>"

text \<open>\<^verbatim>\<open>InsertPostAnalytics\<close>: \<^verbatim>\<open>postId\<close> required, the metric columns optional.\<close>

record InsertPostAnalytics =
  a_postId :: int
  a_viewCount :: "int option"
  a_likeCount :: "int option"
  a_commentCount :: "int option"
  a_shareCount :: "int option"
  a_playDuration :: "int option"
  a_averagePlayDuration :: "int option"
  a_profileViewCount :: "int option"

section \<open>Remote client interface (server/services/tiktokApi.ts)\<close>

datatype tiktok_privacy = PUBLIC_TO_EVERYONE | MUTUAL_FOLLOW_FRIEND | SELF_ONLY

text \<open>\<^verbatim>\<open>TikTokPostRequest['post_info']\<close> as the publish route builds it.\<close>

record post_info =
  pi_title :: string
  privacy_level :: tiktok_privacy
  disable_duet :: bool
  disable_comment :: bool
  disable_stitch :: bool

text \<open>\<^verbatim>\<open>TikTokPostResponse\<close>: the route reads \<^verbatim>\<open>result.data.publish_id\<close> only.\<close>

record TikTokPostResponse =
  publish_id :: string

text \<open>\<^verbatim>\<open>TikTokAnalytics\<close>: the \<^verbatim>\<open>metrics\<close> object.\<close>

record TikTokAnalytics =
  likes :: int
  comments :: int
  shares :: int
  views :: int
  profile_view :: int
  video_view_duration_avg :: int

text \<open>
  The errors the database raises on the statements of the storage module. An
  \<^verbatim>\<open>integer\<close> or \<^verbatim>\<open>serial\<close> column holds 32-bit values, and a statement that
  compares it with a JavaScript number outside that range is refused. An
  \<^verbatim>\<open>ON CONFLICT (post_id)\<close> needs a unique index or constraint on
  \<^verbatim>\<open>post_id\<close>, and is refused without one.
\<close>

datatype db_error = IntegerOutOfRange int | NoUniqueConstraint

text \<open>
  The collaborators outside the program: the clock behind \<^verbatim>\<open>new Date()\<close> and the two
  methods of \<^verbatim>\<open>TikTokApiService\<close> the routes call. \<open>'w\<close> is the state of the outside
  world; each call returns its result and the next world, so two calls with equal
  arguments may answer differently. \<open>Inl m\<close> is a thrown \<^verbatim>\<open>Error\<close> with message \<open>m\<close>.
  \<open>db_message\<close> is the \<^verbatim>\<open>message\<close> the database driver gives an error it raises.
  \<^verbatim>\<open>getVideoAnalytics\<close> returns a \<^verbatim>\<open>Record<string, TikTokAnalytics>\<close>, a partial map.

  The routes construct a \<^verbatim>\<open>MockTikTokApiService\<close>, the subclass that overrides these
  methods and never throws. The client is a parameter here, so that the routes' handling
  of the errors \<^verbatim>\<open>TikTokApiService\<close> throws is part of the model.
\<close>

record 'w Env =
  new_Date :: "'w \<Rightarrow> timestamp \<times> 'w"
  db_message :: "db_error \<Rightarrow> string"
  postVideoFromUrl :: "'w \<Rightarrow> string \<Rightarrow> string \<Rightarrow> post_info \<Rightarrow> (string + TikTokPostResponse) \<times> 'w"
  getVideoAnalytics :: "'w \<Rightarrow> string \<Rightarrow> string list \<Rightarrow> (string + (string \<rightharpoonup> TikTokAnalytics)) \<times> 'w"

section \<open>State: database, outside world, trace of effects\<close>

record Store =
  posts :: "Post list"
  posts_id_seq :: int
  tiktokAccounts :: "TikTokAccount list"
  postAnalytics :: "PostAnalytics list"
  postAnalytics_id_seq :: int

text \<open>
  The effects a route performs, in the order it awaits them: the write statements
  \<^verbatim>\<open>DatabaseStorage\<close> sends and the calls of the remote client.
\<close>

datatype event =
    DbInsertPost InsertPost
  | DbUpdatePost int PartialInsertPost
  | DbUpsertPostAnalytics InsertPostAnalytics
  | ApiPostVideoFromUrl string string post_info
  | ApiGetVideoAnalytics string "string list"

record 'w System =
  db :: Store
  remote :: 'w
  trace :: "event list"

definition js_new_Date :: "'w Env \<Rightarrow> 'w System \<Rightarrow> timestamp \<times> 'w System" where
  "js_new_Date env s = (case new_Date env (remote s) of (t, w) \<Rightarrow> (t, s\<lparr>remote := w\<rparr>))"

definition emit :: "event \<Rightarrow> 'w System \<Rightarrow> 'w System" where
  "emit e s = s\<lparr>trace := trace s @ [e]\<rparr>"

definition api_postVideoFromUrl ::
  "'w Env \<Rightarrow> string \<Rightarrow> string \<Rightarrow> post_info \<Rightarrow> 'w System \<Rightarrow> (string + TikTokPostResponse) \<times> 'w System" where
  "api_postVideoFromUrl env token url info s =
     (case postVideoFromUrl env (remote s) token url info of
        (r, w) \<Rightarrow> (r, emit (ApiPostVideoFromUrl token url info) (s\<lparr>remote := w\<rparr>)))"

definition api_getVideoAnalytics ::
  "'w Env \<Rightarrow> string \<Rightarrow> string list \<Rightarrow> 'w System \<Rightarrow> (string + (string \<rightharpoonup> TikTokAnalytics)) \<times> 'w System" where
  "api_getVideoAnalytics env token videoIds s =
     (case getVideoAnalytics env (remote s) token videoIds of
        (r, w) \<Rightarrow> (r, emit (ApiGetVideoAnalytics token videoIds) (s\<lparr>remote := w\<rparr>)))"

section \<open>DatabaseStorage (the storage module)\<close>

text \<open>
  A table is the list of its rows in insertion order. \<^verbatim>\<open>const [row] = await ...\<close> takes
  the first row of the result, \<^verbatim>\<open>undefined\<close> (\<open>None\<close>) when there is none. A
  method whose statement the database refuses raises: its result is \<open>Inl\<close> of the
  error. Two refusals follow from the sources and are modelled: the post identifier of a
  request outside the range of the \<^verbatim>\<open>id\<close> column, and the conflict target of the
  upsert. A lost connection and the like are not.
\<close>

text \<open>A key of \<^verbatim>\<open>.set({...})\<close>: an absent key keeps the column's value.\<close>

definition assigned :: "'a option \<Rightarrow> 'a \<Rightarrow> 'a" where
  "assigned v old = (case v of None \<Rightarrow> old | Some x \<Rightarrow> x)"

definition assigned_null :: "'a option \<Rightarrow> 'a option \<Rightarrow> 'a option" where
  "assigned_null v old = (case v of None \<Rightarrow> old | Some x \<Rightarrow> Some x)"

text \<open>A column default on insert: an absent key takes the default.\<close>

definition defaulted :: "'a option \<Rightarrow> 'a \<Rightarrow> 'a option" where
  "defaulted v d = (case v of None \<Rightarrow> Some d | Some x \<Rightarrow> Some x)"

text \<open>\<^verbatim>\<open>ORDER BY created_at DESC\<close>: nulls first, then the latest first.\<close>

definition orderBy_desc :: "('a \<Rightarrow> timestamp option) \<Rightarrow> 'a list \<Rightarrow> 'a list" where
  "orderBy_desc k xs =
     filter (\<lambda>x. k x = None) xs @ rev (sort_key (\<lambda>x. the (k x)) (filter (\<lambda>x. k x \<noteq> None) xs))"

definition getTikTokAccount :: "int \<Rightarrow> 'w System \<Rightarrow> TikTokAccount option" where
  "getTikTokAccount i s = find (\<lambda>a. acc_id a = i) (tiktokAccounts (db s))"

definition getPosts :: "string \<Rightarrow> 'w System \<Rightarrow> Post list" where
  "getPosts uid s = orderBy_desc createdAt (filter (\<lambda>p. userId p = uid) (posts (db s)))"

text \<open>The range of an \<^verbatim>\<open>integer\<close> column.\<close>

definition int4 :: "int \<Rightarrow> bool" where
  "int4 i = (- 2147483648 \<le> i \<and> i \<le> 2147483647)"

text \<open>
  \<^verbatim>\<open>getPost\<close> is called with the number a route parsed from its path:
  \<^verbatim>\<open>WHERE id = i\<close> is refused when \<open>i\<close> is outside the range of the column.
\<close>

definition getPost :: "int \<Rightarrow> 'w System \<Rightarrow> db_error + Post option" where
  "getPost i s =
     (if int4 i then Inr (find (\<lambda>p. post_id p = i) (posts (db s)))
      else Inl (IntegerOutOfRange i))"

text \<open>The row a lookup returned, when it returned one.\<close>

definition found :: "db_error + 'a option \<Rightarrow> 'a option" where
  "found r = (case r of Inl e \<Rightarrow> None | Inr x \<Rightarrow> x)"

text \<open>The row \<^verbatim>\<open>insert(posts).values(postData)\<close> stores, with the column defaults.\<close>

definition inserted_post :: "int \<Rightarrow> timestamp \<Rightarrow> InsertPost \<Rightarrow> Post" where
  "inserted_post i t d =
     \<lparr> post_id = i, userId = i_userId d, tiktokAccountId = i_tiktokAccountId d,
       title = i_title d, description = i_description d, hashtags = i_hashtags d,
       videoUrl = i_videoUrl d, thumbnailUrl = i_thumbnailUrl d,
       status = defaulted (i_status d) Draft,
       scheduledAt = i_scheduledAt d, postedAt = i_postedAt d,
       tiktokPostId = i_tiktokPostId d,
       privacyLevel = defaulted (i_privacyLevel d) Public,
       allowComments = defaulted (i_allowComments d) True,
       allowDuet = defaulted (i_allowDuet d) True,
       allowStitch = defaulted (i_allowStitch d) True,
       errorMessage = i_errorMessage d,
       createdAt = Some t, updatedAt = Some t \<rparr>"

definition createPost :: "'w Env \<Rightarrow> InsertPost \<Rightarrow> 'w System \<Rightarrow> Post \<times> 'w System" where
  "createPost env postData s =
     (case js_new_Date env s of (t, s1) \<Rightarrow>
        let post = inserted_post (posts_id_seq (db s1)) t postData;
            d = (db s1)\<lparr>posts := posts (db s1) @ [post],
                        posts_id_seq := posts_id_seq (db s1) + 1\<rparr>
        in (post, emit (DbInsertPost postData) (s1\<lparr>db := d\<rparr>)))"

text \<open>\<^verbatim>\<open>.set({ ...updates, updatedAt: new Date() })\<close> on one row.\<close>

definition set_post :: "PartialInsertPost \<Rightarrow> timestamp \<Rightarrow> Post \<Rightarrow> Post" where
  "set_post u t p =
     p\<lparr> userId := assigned (u_userId u) (userId p),
        tiktokAccountId := assigned (u_tiktokAccountId u) (tiktokAccountId p),
        title := assigned (u_title u) (title p),
        description := assigned_null (u_description u) (description p),
        hashtags := assigned_null (u_hashtags u) (hashtags p),
        videoUrl := assigned (u_videoUrl u) (videoUrl p),
        thumbnailUrl := assigned_null (u_thumbnailUrl u) (thumbnailUrl p),
        status := assigned_null (u_status u) (status p),
        scheduledAt := assigned_null (u_scheduledAt u) (scheduledAt p),
        postedAt := assigned_null (u_postedAt u) (postedAt p),
        tiktokPostId := assigned_null (u_tiktokPostId u) (tiktokPostId p),
        privacyLevel := assigned_null (u_privacyLevel u) (privacyLevel p),
        allowComments := assigned_null (u_allowComments u) (allowComments p),
        allowDuet := assigned_null (u_allowDuet u) (allowDuet p),
        allowStitch := assigned_null (u_allowStitch u) (allowStitch p),
        errorMessage := assigned_null (u_errorMessage u) (errorMessage p),
        updatedAt := Some t \<rparr>"

definition updatePost ::
  "'w Env \<Rightarrow> int \<Rightarrow> PartialInsertPost \<Rightarrow> 'w System \<Rightarrow> Post option \<times> 'w System" where
  "updatePost env i updates s =
     (case js_new_Date env s of (t, s1) \<Rightarrow>
        let rows = map (\<lambda>p. if post_id p = i then set_post updates t p else p) (posts (db s1))
        in (find (\<lambda>p. post_id p = i) rows,
            emit (DbUpdatePost i updates) (s1\<lparr>db := (db s1)\<lparr>posts := rows\<rparr>\<rparr>)))"

definition getPostAnalytics :: "int \<Rightarrow> 'w System \<Rightarrow> PostAnalytics option" where
  "getPostAnalytics pid s = find (\<lambda>r. postId r = pid) (postAnalytics (db s))"

text \<open>
  \<^verbatim>\<open>insert(postAnalytics).values(analyticsData).onConflictDoUpdate({ target: postAnalytics.postId, set })\<close>
  is the statement \<^verbatim>\<open>INSERT ... ON CONFLICT (post_id) DO UPDATE SET ...\<close>. The table
  \<^verbatim>\<open>post_analytics\<close> of \<^verbatim>\<open>shared/schema.ts\<close> declares \<^verbatim>\<open>post_id\<close> with
  \<^verbatim>\<open>notNull()\<close> and \<^verbatim>\<open>references(...)\<close> only: it has no unique index or constraint
  on that column, so the database refuses the statement whatever the rows and the data.
  The method raises on every call and writes no row. \<^verbatim>\<open>new Date()\<close> is evaluated when
  the statement is built, and the trace records the statement that was sent.
\<close>

definition upsertPostAnalytics ::
  "'w Env \<Rightarrow> InsertPostAnalytics \<Rightarrow> 'w System \<Rightarrow> (db_error + PostAnalytics) \<times> 'w System" where
  "upsertPostAnalytics env analyticsData s =
     (case js_new_Date env s of (t, s1) \<Rightarrow>
        (Inl NoUniqueConstraint, emit (DbUpsertPostAnalytics analyticsData) s1))"

section \<open>Routes (the routes module with the demo user)\<close>

datatype json_body = Message string | PostJson "Post option"

text \<open>\<^verbatim>\<open>res.status(c).json(b)\<close>; \<^verbatim>\<open>res.json(b)\<close> has status 200.\<close>

datatype response = Response nat json_body

record Request =
  protocol :: string
  host :: string

definition mockUserId :: string where
  "mockUserId = ''demo_user_123''"

text \<open>JavaScript truthiness of a \<^verbatim>\<open>string | null\<close>: neither \<^verbatim>\<open>null\<close> nor empty.\<close>

definition truthy :: "string option \<Rightarrow> bool" where
  "truthy v = (case v of None \<Rightarrow> False | Some x \<Rightarrow> x \<noteq> [])"

text \<open>\<^verbatim>\<open>!b\<close> for a \<^verbatim>\<open>boolean | null\<close>.\<close>

definition js_not :: "bool option \<Rightarrow> bool" where
  "js_not b = (case b of None \<Rightarrow> True | Some x \<Rightarrow> \<not> x)"

definition postInfo :: "Post \<Rightarrow> post_info" where
  "postInfo post =
     \<lparr> pi_title = title post,
       privacy_level =
         (if privacyLevel post = Some Public then PUBLIC_TO_EVERYONE
          else if privacyLevel post = Some Friends then MUTUAL_FOLLOW_FRIEND
          else SELF_ONLY),
       disable_duet = js_not (allowDuet post),
       disable_comment = js_not (allowComments post),
       disable_stitch = js_not (allowStitch post) \<rparr>"

text \<open>
  The inner \<^verbatim>\<open>try { ... } catch (error) { ...; throw error; }\<close> of the publish route:
  \<open>Inr\<close> is the updated post handed to \<^verbatim>\<open>res.json\<close>, \<open>Inl m\<close> the re-thrown error.
\<close>

definition publish_attempt ::
  "'w Env \<Rightarrow> Request \<Rightarrow> int \<Rightarrow> Post \<Rightarrow> TikTokAccount \<Rightarrow> 'w System \<Rightarrow> (string + Post option) \<times> 'w System" where
  "publish_attempt env req pid post tiktokAccount s =
     (case api_postVideoFromUrl env (accessToken tiktokAccount)
             (protocol req @ ''://'' @ host req @ videoUrl post) (postInfo post) s of
        (Inr result, s1) \<Rightarrow>
          (case js_new_Date env s1 of (t, s2) \<Rightarrow>
             (case updatePost env pid
                     (no_updates\<lparr>u_status := Some Posted,
                                 u_tiktokPostId := Some (publish_id result),
                                 u_postedAt := Some t\<rparr>) s2 of
                (updatedPost, s3) \<Rightarrow> (Inr updatedPost, s3)))
      | (Inl message, s1) \<Rightarrow>
          (case updatePost env pid
                  (no_updates\<lparr>u_status := Some Failed, u_errorMessage := Some message\<rparr>) s1 of
             (_, s2) \<Rightarrow> (Inl message, s2)))"

text \<open>
  \<^verbatim>\<open>app.post('/api/posts/:id/publish', ...)\<close>; \<open>pid\<close> is \<^verbatim>\<open>postId\<close>, the path
  parameter parsed to an integer. The outer \<^verbatim>\<open>catch\<close> turns an error into the 500
  response that carries its message: the error the inner block re-throws, and the error
  of \<^verbatim>\<open>getPost\<close>, which is inside the outer \<^verbatim>\<open>try\<close>. The other storage calls
  of the route take an identifier a lookup has accepted or a stored column's value.
\<close>

definition publish :: "'w Env \<Rightarrow> Request \<Rightarrow> int \<Rightarrow> 'w System \<Rightarrow> response \<times> 'w System" where
  "publish env req pid s =
     (case getPost pid s of
        Inl error \<Rightarrow> (Response 500 (Message (db_message env error)), s)
      | Inr None \<Rightarrow> (Response 404 (Message ''Post not found''), s)
      | Inr (Some post) \<Rightarrow>
          (case getTikTokAccount (tiktokAccountId post) s of
             None \<Rightarrow> (Response 404 (Message ''TikTok account not found''), s)
           | Some tiktokAccount \<Rightarrow>
               (case updatePost env pid (no_updates\<lparr>u_status := Some Posting\<rparr>) s of
                  (_, s1) \<Rightarrow>
                    (case publish_attempt env req pid post tiktokAccount s1 of
                       (Inr updatedPost, s2) \<Rightarrow> (Response 200 (PostJson updatedPost), s2)
                     | (Inl message, s2) \<Rightarrow> (Response 500 (Message message), s2)))))"

text \<open>The object literal the sync route hands to \<^verbatim>\<open>upsertPostAnalytics\<close>.\<close>

definition sync_data :: "Post \<Rightarrow> TikTokAnalytics \<Rightarrow> InsertPostAnalytics" where
  "sync_data post a =
     \<lparr> a_postId = post_id post, a_viewCount = Some (views a), a_likeCount = Some (likes a),
       a_commentCount = Some (comments a), a_shareCount = Some (shares a),
       a_playDuration = None,
       a_averagePlayDuration = Some (video_view_duration_avg a),
       a_profileViewCount = Some (profile_view a) \<rparr>"

text \<open>
  The body of the \<^verbatim>\<open>for (const post of postedPosts)\<close> loop of the sync route. The
  call of the client and the upsert are inside the \<^verbatim>\<open>try\<close> of the body: an error of
  either is caught and logged, and the loop goes on.
\<close>

definition sync_post :: "'w Env \<Rightarrow> Post \<Rightarrow> 'w System \<Rightarrow> 'w System" where
  "sync_post env post s =
     (if \<not> truthy (tiktokPostId post) then s
      else
        (case getTikTokAccount (tiktokAccountId post) s of
           None \<Rightarrow> s
         | Some tiktokAccount \<Rightarrow>
             (case api_getVideoAnalytics env (accessToken tiktokAccount) [the (tiktokPostId post)] s of
                (Inl message, s1) \<Rightarrow> s1
              | (Inr analyticsData, s1) \<Rightarrow>
                  (case analyticsData (the (tiktokPostId post)) of
                     None \<Rightarrow> s1
                   | Some a \<Rightarrow>
                       (case upsertPostAnalytics env (sync_data post a) s1 of
                          (Inl error, s2) \<Rightarrow> s2
                        | (Inr row, s2) \<Rightarrow> s2)))))"

definition postedPosts :: "'w System \<Rightarrow> Post list" where
  "postedPosts s =
     filter (\<lambda>p. status p = Some Posted \<and> truthy (tiktokPostId p)) (getPosts mockUserId s)"

text \<open>\<^verbatim>\<open>app.post('/api/sync-analytics', ...)\<close>.\<close>

definition syncAnalytics :: "'w Env \<Rightarrow> 'w System \<Rightarrow> response \<times> 'w System" where
  "syncAnalytics env s =
     (Response 200 (Message ''Analytics synced successfully''),
      fold (sync_post env) (postedPosts s) s)"

section \<open>Observations used in the statements\<close>

text \<open>
  The rows \<^verbatim>\<open>SELECT ... FROM post_analytics WHERE post_id = pid\<close> returns;
  \<open>getPostAnalytics\<close> is their first.
\<close>

definition analytics_rows :: "int \<Rightarrow> 'w System \<Rightarrow> PostAnalytics list" where
  "analytics_rows pid s = filter (\<lambda>r. postId r = pid) (postAnalytics (db s))"

text \<open>
  The upsert statements of a trace that carry a given \<^verbatim>\<open>postId\<close>.
\<close>

definition upsert_events :: "int \<Rightarrow> event list \<Rightarrow> event list" where
  "upsert_events pid tr =
     filter (\<lambda>e. case e of DbUpsertPostAnalytics d \<Rightarrow> a_postId d = pid | _ \<Rightarrow> False) tr"

text \<open>
  The one direction of the spec's round-trip invariant that the publish route maintains:
  a \<^verbatim>\<open>posted\<close> post has a remote post identifier and a posting time.
\<close>

definition posted_inv :: "Post \<Rightarrow> bool" where
  "posted_inv p = (status p = Some Posted \<longrightarrow> tiktokPostId p \<noteq> None \<and> postedAt p \<noteq> None)"

section \<open>Stand-in clients and example systems\<close>

text \<open>
  Concrete inputs for the examples below. The world of the stand-in clients is the clock,
  which advances by one at every \<^verbatim>\<open>new Date()\<close>. \<open>standin_ok\<close> always
  publishes, with a fixed identifier; \<open>standin_fail\<close> always throws;
  \<open>standin_analytics f\<close> answers a metrics query by \<open>f\<close>.
\<close>

definition demo_account :: TikTokAccount where
  "demo_account =
     \<lparr> acc_id = 1, acc_userId = ''demo_user_123'', tiktokUserId = ''mock_user_123'',
       username = ''testuser'', displayName = Some ''Test User'', avatarUrl = None,
       followerCount = Some 1500, followingCount = Some 300, likesCount = Some 25000,
       videoCount = Some 42, accessToken = ''token'', refreshToken = None,
       tokenExpiresAt = None, isActive = Some True,
       acc_createdAt = Some 1, acc_updatedAt = Some 1 \<rparr>"

definition demo_insert :: InsertPost where
  "demo_insert =
     \<lparr> i_userId = ''demo_user_123'', i_tiktokAccountId = 1, i_title = ''clip'',
       i_description = None, i_hashtags = Some [], i_videoUrl = ''/uploads/f1'',
       i_thumbnailUrl = None, i_status = None, i_scheduledAt = None, i_postedAt = None,
       i_tiktokPostId = None, i_privacyLevel = None, i_allowComments = None,
       i_allowDuet = None, i_allowStitch = None, i_errorMessage = None \<rparr>"

definition demo_req :: Request where
  "demo_req = \<lparr> protocol = ''http'', host = ''localhost'' \<rparr>"

definition demo_metrics :: TikTokAnalytics where
  "demo_metrics = \<lparr> likes = 7, comments = 3, shares = 2, views = 100, profile_view = 5,
                     video_view_duration_avg = 1200 \<rparr>"

definition standin_message :: "db_error \<Rightarrow> string" where
  "standin_message e =
     (case e of
        IntegerOutOfRange i \<Rightarrow> ''value is out of range for type integer''
      | NoUniqueConstraint \<Rightarrow>
          ''there is no unique or exclusion constraint matching the ON CONFLICT specification'')"

definition standin_ok :: "string \<Rightarrow> nat Env" where
  "standin_ok ident =
     \<lparr> new_Date = (\<lambda>w. (w, Suc w)), db_message = standin_message,
       postVideoFromUrl = (\<lambda>w token url info. (Inr \<lparr> publish_id = ident \<rparr>, w)),
       getVideoAnalytics = (\<lambda>w token ids. (Inr (map_of (map (\<lambda>i. (i, demo_metrics)) ids)), w)) \<rparr>"

definition standin_fail :: "nat Env" where
  "standin_fail =
     \<lparr> new_Date = (\<lambda>w. (w, Suc w)), db_message = standin_message,
       postVideoFromUrl = (\<lambda>w token url info. (Inl ''Failed to post video from URL: timeout'', w)),
       getVideoAnalytics = (\<lambda>w token ids. (Inl ''Failed to get analytics: timeout'', w)) \<rparr>"

definition standin_analytics :: "(string list \<Rightarrow> string + (string \<rightharpoonup> TikTokAnalytics)) \<Rightarrow> nat Env" where
  "standin_analytics f =
     \<lparr> new_Date = (\<lambda>w. (w, Suc w)), db_message = standin_message,
       postVideoFromUrl = (\<lambda>w token url info. (Inr \<lparr> publish_id = ''mock_post_1'' \<rparr>, w)),
       getVideoAnalytics = (\<lambda>w token ids. (f ids, w)) \<rparr>"

definition fails_v2 :: "string list \<Rightarrow> string + (string \<rightharpoonup> TikTokAnalytics)" where
  "fails_v2 ids =
     (if ids = [''v2''] then Inl ''Failed to get analytics: timeout''
      else Inr (map_of (map (\<lambda>i. (i, demo_metrics)) ids)))"

definition unknown_v2 :: "string list \<Rightarrow> string + (string \<rightharpoonup> TikTokAnalytics)" where
  "unknown_v2 ids = Inr (map_of (map (\<lambda>i. (i, demo_metrics)) (filter (\<lambda>i. i \<noteq> ''v2'') ids)))"

definition demo_system :: "nat System" where
  "demo_system =
     \<lparr> db = \<lparr> posts = [], posts_id_seq = 1, tiktokAccounts = [demo_account],
              postAnalytics = [], postAnalytics_id_seq = 1 \<rparr>,
       remote = 1000, trace = [] \<rparr>"

text \<open>
  The systems reached from \<open>demo_system\<close>: one draft post created; that post
  published; that post after a failed publish; and the draft with its account inactive or
  deleted.
\<close>

definition sys_draft :: "nat System" where
  "sys_draft = snd (createPost (standin_ok ''mock_post_1'') demo_insert demo_system)"

definition sys_posted :: "nat System" where
  "sys_posted = snd (publish (standin_ok ''mock_post_1'') demo_req 1 sys_draft)"

definition sys_failed :: "nat System" where
  "sys_failed = snd (publish standin_fail demo_req 1 sys_draft)"

definition sys_inactive :: "nat System" where
  "sys_inactive =
     sys_draft\<lparr>db := (db sys_draft)\<lparr>tiktokAccounts := [demo_account\<lparr>isActive := Some False\<rparr>]\<rparr>\<rparr>"

definition sys_orphan :: "nat System" where
  "sys_orphan = sys_draft\<lparr>db := (db sys_draft)\<lparr>tiktokAccounts := []\<rparr>\<rparr>"

text \<open>
  Three posted posts of the demo user, and an analytics row already stored for the
  second.
\<close>

definition posted_demo :: "int \<Rightarrow> string \<Rightarrow> timestamp \<Rightarrow> Post" where
  "posted_demo i vid t =
     (inserted_post i t demo_insert)\<lparr>status := Some Posted, tiktokPostId := Some vid,
                                      postedAt := Some t\<rparr>"

definition old_row :: PostAnalytics where
  "old_row = \<lparr> pa_id = 1, postId = 2, viewCount = Some 11, likeCount = Some 1,
               commentCount = Some 0, shareCount = Some 0, playDuration = Some 0,
               averagePlayDuration = Some 900, profileViewCount = Some 0,
               pa_updatedAt = Some 500 \<rparr>"

definition sys_three :: "nat System" where
  "sys_three =
     \<lparr> db = \<lparr> posts = [posted_demo 1 ''v1'' 10, posted_demo 2 ''v2'' 20, posted_demo 3 ''v3'' 30],
              posts_id_seq = 4, tiktokAccounts = [demo_account],
              postAnalytics = [old_row], postAnalytics_id_seq = 2 \<rparr>,
       remote = 1000, trace = [] \<rparr>"

section \<open>Facts about the storage operations\<close>

lemma js_new_Date_eq:
  "js_new_Date env s = (fst (new_Date env (remote s)), s\<lparr>remote := snd (new_Date env (remote s))\<rparr>)"
  by (simp add: js_new_Date_def split: prod.splits)

lemma find_map_same_id:
  assumes "\<And>p. post_id (f p) = post_id p"
  shows "find (\<lambda>p. post_id p = j) (map (\<lambda>p. if post_id p = i then f p else p) xs)
         = (if j = i then map_option f (find (\<lambda>p. post_id p = i) xs) else find (\<lambda>p. post_id p = j) xs)"
  using assms by (induction xs) auto

lemma post_id_set_post: "post_id (set_post u t p) = post_id p"
  by (simp add: set_post_def)

lemma getPost_Inr_int4: "getPost i s = Inr x \<Longrightarrow> int4 i"
  by (simp add: getPost_def split: if_splits)

lemma found_simps [simp]:
  "found (Inr x) = x" "found (Inl e) = None"
  by (simp_all add: found_def)

lemma found_map_SomeE: "map_option f (found r) = Some v \<Longrightarrow> \<exists>p. r = Inr (Some p)"
  by (auto simp: found_def split: sum.splits)

lemma updatePost_fst:
  "int4 i \<Longrightarrow>
   fst (updatePost env i u s)
     = map_option (set_post u (fst (new_Date env (remote s)))) (found (getPost i s))"
  by (simp add: updatePost_def js_new_Date_eq getPost_def found_def Let_def find_map_same_id
        post_id_set_post)

lemma updatePost_posts:
  "posts (db (snd (updatePost env i u s)))
     = map (\<lambda>p. if post_id p = i then set_post u (fst (new_Date env (remote s))) p else p) (posts (db s))"
  by (simp add: updatePost_def js_new_Date_eq Let_def emit_def)

lemma updatePost_other:
  "tiktokAccounts (db (snd (updatePost env i u s))) = tiktokAccounts (db s)"
  "postAnalytics (db (snd (updatePost env i u s))) = postAnalytics (db s)"
  "remote (snd (updatePost env i u s)) = snd (new_Date env (remote s))"
  "trace (snd (updatePost env i u s)) = trace s @ [DbUpdatePost i u]"
  by (simp_all add: updatePost_def js_new_Date_eq Let_def emit_def)

lemma getPost_updatePost:
  "getPost j (snd (updatePost env i u s))
     = (if j = i
        then map_sum id (map_option (set_post u (fst (new_Date env (remote s))))) (getPost i s)
        else getPost j s)"
  by (simp add: getPost_def updatePost_posts find_map_same_id post_id_set_post)

lemma getTikTokAccount_updatePost:
  "getTikTokAccount j (snd (updatePost env i u s)) = getTikTokAccount j s"
  by (simp add: getTikTokAccount_def updatePost_other)

lemma emit_simps:
  "db (emit e s) = db s" "remote (emit e s) = remote s" "trace (emit e s) = trace s @ [e]"
  by (simp_all add: emit_def)

lemma getPost_frame:
  "getPost i (emit e s) = getPost i s" "getPost i (s\<lparr>remote := w\<rparr>) = getPost i s"
  by (simp_all add: getPost_def emit_def)

lemma getTikTokAccount_frame:
  "getTikTokAccount i (emit e s) = getTikTokAccount i s"
  "getTikTokAccount i (s\<lparr>remote := w\<rparr>) = getTikTokAccount i s"
  by (simp_all add: getTikTokAccount_def emit_def)

lemma set_post_fields:
  "status (set_post u t p) = assigned_null (u_status u) (status p)"
  "tiktokPostId (set_post u t p) = assigned_null (u_tiktokPostId u) (tiktokPostId p)"
  "postedAt (set_post u t p) = assigned_null (u_postedAt u) (postedAt p)"
  "errorMessage (set_post u t p) = assigned_null (u_errorMessage u) (errorMessage p)"
  by (simp_all add: set_post_def)

lemma set_post_frame:
  "tiktokAccountId (set_post u t p) = assigned (u_tiktokAccountId u) (tiktokAccountId p)"
  by (simp add: set_post_def)

lemma assigned_null_simps:
  "assigned_null None old = old" "assigned_null (Some x) old = Some x"
  by (simp_all add: assigned_null_def)

lemma find_filter_first:
  "find P xs = (case filter P xs of [] \<Rightarrow> None | x # _ \<Rightarrow> Some x)"
  by (induction xs) auto

lemma getPostAnalytics_rows:
  "getPostAnalytics pid s = (case analytics_rows pid s of [] \<Rightarrow> None | r # _ \<Rightarrow> Some r)"
  by (simp add: getPostAnalytics_def analytics_rows_def find_filter_first)

lemma upsert_simps:
  "fst (upsertPostAnalytics env d s) = Inl NoUniqueConstraint"
  "db (snd (upsertPostAnalytics env d s)) = db s"
  "remote (snd (upsertPostAnalytics env d s)) = snd (new_Date env (remote s))"
  "trace (snd (upsertPostAnalytics env d s)) = trace s @ [DbUpsertPostAnalytics d]"
  by (simp_all add: upsertPostAnalytics_def js_new_Date_eq emit_def)

lemma analytics_rows_frame:
  "analytics_rows q (emit e s) = analytics_rows q s"
  "analytics_rows q (s\<lparr>remote := w\<rparr>) = analytics_rows q s"
  by (simp_all add: analytics_rows_def emit_def)


section \<open>Facts about the publish route\<close>

lemmas publish_unfold = publish_def publish_attempt_def api_postVideoFromUrl_def js_new_Date_eq
  case_prod_beta updatePost_fst updatePost_other getPost_updatePost getTikTokAccount_updatePost
  emit_simps getPost_frame getTikTokAccount_frame found_simps

lemma publish_on_error:
  assumes "getPost pid s = Inr (Some post)"
    and "getTikTokAccount (tiktokAccountId post) s = Some acct"
    and "postVideoFromUrl env (snd (new_Date env (remote s))) (accessToken acct)
           (protocol req @ ''://'' @ host req @ videoUrl post) (postInfo post) = (Inl m, w)"
  shows "fst (publish env req pid s) = Response 500 (Message m)"
    and "getPost pid (snd (publish env req pid s))
          = Inr (Some (set_post (no_updates\<lparr>u_status := Some Failed, u_errorMessage := Some m\<rparr>)
                    (fst (new_Date env w))
                    (set_post (no_updates\<lparr>u_status := Some Posting\<rparr>) (fst (new_Date env (remote s))) post)))"
    and "trace (snd (publish env req pid s))
          = trace s @ [DbUpdatePost pid (no_updates\<lparr>u_status := Some Posting\<rparr>),
                       ApiPostVideoFromUrl (accessToken acct)
                         (protocol req @ ''://'' @ host req @ videoUrl post) (postInfo post),
                       DbUpdatePost pid (no_updates\<lparr>u_status := Some Failed, u_errorMessage := Some m\<rparr>)]"
  using assms getPost_Inr_int4 [OF assms(1)] by (simp_all add: publish_unfold)

lemma publish_on_result:
  assumes "getPost pid s = Inr (Some post)"
    and "getTikTokAccount (tiktokAccountId post) s = Some acct"
    and "postVideoFromUrl env (snd (new_Date env (remote s))) (accessToken acct)
           (protocol req @ ''://'' @ host req @ videoUrl post) (postInfo post) = (Inr result, w)"
  shows "fst (publish env req pid s)
          = Response 200 (PostJson (found (getPost pid (snd (publish env req pid s)))))"
    and "getPost pid (snd (publish env req pid s))
          = Inr (Some (set_post (no_updates\<lparr>u_status := Some Posted,
                                        u_tiktokPostId := Some (publish_id result),
                                        u_postedAt := Some (fst (new_Date env w))\<rparr>)
                    (fst (new_Date env (snd (new_Date env w))))
                    (set_post (no_updates\<lparr>u_status := Some Posting\<rparr>) (fst (new_Date env (remote s))) post)))"
    and "trace (snd (publish env req pid s))
          = trace s @ [DbUpdatePost pid (no_updates\<lparr>u_status := Some Posting\<rparr>),
                       ApiPostVideoFromUrl (accessToken acct)
                         (protocol req @ ''://'' @ host req @ videoUrl post) (postInfo post),
                       DbUpdatePost pid (no_updates\<lparr>u_status := Some Posted,
                                        u_tiktokPostId := Some (publish_id result),
                                        u_postedAt := Some (fst (new_Date env w))\<rparr>)]"
  using assms getPost_Inr_int4 [OF assms(1)] by (simp_all add: publish_unfold)

section \<open>Facts about the sync route\<close>

lemma sync_post_db: "db (sync_post env p s) = db s"
  by (simp add: sync_post_def api_getVideoAnalytics_def case_prod_beta emit_def upsert_simps
        split: option.splits sum.splits)

lemma sync_post_events_other:
  "q \<noteq> post_id p \<Longrightarrow> upsert_events q (trace (sync_post env p s)) = upsert_events q (trace s)"
  by (simp add: sync_post_def api_getVideoAnalytics_def case_prod_beta upsert_simps
        emit_simps upsert_events_def sync_data_def split: option.splits sum.splits)

lemma fold_sync_db: "db (fold (sync_post env) ps s) = db s"
  by (induction ps arbitrary: s) (simp_all add: sync_post_db)

lemma fold_sync_rows: "analytics_rows q (fold (sync_post env) ps s) = analytics_rows q s"
  by (simp add: analytics_rows_def fold_sync_db)

lemma fold_sync_events_other:
  "q \<notin> post_id ` set ps \<Longrightarrow>
   upsert_events q (trace (fold (sync_post env) ps s)) = upsert_events q (trace s)"
  by (induction ps arbitrary: s) (simp_all add: sync_post_events_other)

lemma getTikTokAccount_fold_sync:
  "getTikTokAccount i (fold (sync_post env) ps s) = getTikTokAccount i s"
  by (simp add: getTikTokAccount_def fold_sync_db)

lemma distinct_orderBy_desc:
  assumes "distinct (map f xs)"
  shows "distinct (map f (orderBy_desc k xs))"
proof -
  have d: "distinct xs" and i: "inj_on f (set xs)"
    using assms by (simp_all add: distinct_map)
  have "distinct (orderBy_desc k xs)"
    using d by (auto simp: orderBy_desc_def)
  moreover have "set (orderBy_desc k xs) \<subseteq> set xs"
    by (auto simp: orderBy_desc_def)
  ultimately show ?thesis
    using i by (auto simp: distinct_map intro: inj_on_subset)
qed

lemma distinct_postedPosts:
  "distinct (map post_id (posts (db s))) \<Longrightarrow> distinct (map post_id (postedPosts s))"
  by (simp add: postedPosts_def getPosts_def distinct_orderBy_desc distinct_map_filter)

lemma sync_post_cases:
  assumes "truthy (tiktokPostId p)"
    and "getTikTokAccount (tiktokAccountId p) s = Some acct"
    and "getVideoAnalytics env (remote s) (accessToken acct) [the (tiktokPostId p)] = (r, w)"
  shows "sync_post env p s =
          (let s1 = emit (ApiGetVideoAnalytics (accessToken acct) [the (tiktokPostId p)]) (s\<lparr>remote := w\<rparr>)
           in case r of Inl msg \<Rightarrow> s1
              | Inr m \<Rightarrow> (case m (the (tiktokPostId p)) of None \<Rightarrow> s1
                           | Some a \<Rightarrow> snd (upsertPostAnalytics env (sync_data p a) s1)))"
  using assms
  by (simp add: sync_post_def api_getVideoAnalytics_def case_prod_beta upsert_simps
        split: sum.splits option.splits)

lemma posted_member:
  assumes "postedPosts s = xs @ p # ys"
  shows "truthy (tiktokPostId p)" "status p = Some Posted"
proof -
  have "p \<in> set (postedPosts s)" using assms by simp
  then show "truthy (tiktokPostId p)" "status p = Some Posted"
    by (simp_all add: postedPosts_def)
qed

lemma posted_split_ids:
  assumes "distinct (map post_id (posts (db s)))" and "postedPosts s = xs @ p # ys"
  shows "post_id p \<notin> post_id ` set xs" "post_id p \<notin> post_id ` set ys"
  using distinct_postedPosts [OF assms(1)] assms(2) by auto

lemma syncAnalytics_split:
  assumes "postedPosts s = xs @ p # ys"
  shows "snd (syncAnalytics env s)
          = fold (sync_post env) ys (sync_post env p (fold (sync_post env) xs s))"
  by (simp add: syncAnalytics_def assms)

section \<open>Facts about the example systems\<close>

lemma sys_draft_simps:
  "getPost 1 sys_draft = Inr (Some (inserted_post 1 1000 demo_insert))"
  "getTikTokAccount 1 sys_draft = Some demo_account"
  "remote sys_draft = 1001"
  "posts (db sys_draft) = [inserted_post 1 1000 demo_insert]"
  "trace sys_draft = [DbInsertPost demo_insert]"
  "getPost 2 sys_draft = Inr None"
  by (simp_all add: sys_draft_def createPost_def js_new_Date_eq standin_ok_def demo_system_def
        Let_def emit_def getPost_def int4_def getTikTokAccount_def demo_account_def inserted_post_def)

lemma inserted_demo_simps:
  "tiktokAccountId (inserted_post i t demo_insert) = 1"
  "status (inserted_post i t demo_insert) = Some Draft"
  "tiktokPostId (inserted_post i t demo_insert) = None"
  "postedAt (inserted_post i t demo_insert) = None"
  "errorMessage (inserted_post i t demo_insert) = None"
  "post_id (inserted_post i t demo_insert) = i"
  by (simp_all add: inserted_post_def demo_insert_def defaulted_def)

lemma standin_simps:
  "new_Date (standin_ok ident) w = (w, Suc w)"
  "db_message (standin_ok ident) e = standin_message e"
  "postVideoFromUrl (standin_ok ident) w token url info = (Inr \<lparr> publish_id = ident \<rparr>, w)"
  "new_Date standin_fail w = (w, Suc w)"
  "postVideoFromUrl standin_fail w token url info = (Inl ''Failed to post video from URL: timeout'', w)"
  by (simp_all add: standin_ok_def standin_fail_def)

lemma sys_failed_simps:
  "map_option status (found (getPost 1 sys_failed)) = Some (Some Failed)"
  "map_option tiktokPostId (found (getPost 1 sys_failed)) = Some None"
  "map_option errorMessage (found (getPost 1 sys_failed)) = Some (Some ''Failed to post video from URL: timeout'')"
  "map_option tiktokAccountId (found (getPost 1 sys_failed)) = Some 1"
  "getTikTokAccount 1 sys_failed = Some demo_account"
  unfolding sys_failed_def
  by (simp_all add: publish_unfold sys_draft_simps inserted_demo_simps standin_simps
       set_post_fields set_post_frame no_updates_def assigned_null_simps assigned_def int4_def)

lemma sys_posted_simps:
  "map_option status (found (getPost 1 sys_posted)) = Some (Some Posted)"
  "map_option tiktokPostId (found (getPost 1 sys_posted)) = Some (Some ''mock_post_1'')"
  "map_option postedAt (found (getPost 1 sys_posted)) = Some (Some 1002)"
  "map_option errorMessage (found (getPost 1 sys_posted)) = Some None"
  "map_option tiktokAccountId (found (getPost 1 sys_posted)) = Some 1"
  "getTikTokAccount 1 sys_posted = Some demo_account"
  unfolding sys_posted_def
  by (simp_all add: publish_unfold sys_draft_simps inserted_demo_simps standin_simps
       set_post_fields set_post_frame no_updates_def assigned_null_simps assigned_def int4_def)

lemma sys_orphan_simps:
  "getPost 1 sys_orphan = Inr (Some (inserted_post 1 1000 demo_insert))"
  "getTikTokAccount 1 sys_orphan = None"
  using sys_draft_simps
  by (simp_all add: sys_orphan_def getPost_def int4_def getTikTokAccount_def)

lemma sys_inactive_simps:
  "getPost 1 sys_inactive = Inr (Some (inserted_post 1 1000 demo_insert))"
  "getTikTokAccount 1 sys_inactive = Some (demo_account\<lparr>isActive := Some False\<rparr>)"
  "remote sys_inactive = 1001"
  "trace sys_inactive = [DbInsertPost demo_insert]"
  using sys_draft_simps
  by (simp_all add: sys_inactive_def getPost_def int4_def getTikTokAccount_def demo_account_def)

lemma posted_demo_simps:
  "post_id (posted_demo i vid t) = i"
  "userId (posted_demo i vid t) = ''demo_user_123''"
  "createdAt (posted_demo i vid t) = Some t"
  "status (posted_demo i vid t) = Some Posted"
  "tiktokPostId (posted_demo i vid t) = Some vid"
  "tiktokAccountId (posted_demo i vid t) = 1"
  by (simp_all add: posted_demo_def inserted_post_def demo_insert_def)

lemma sys_three_simps:
  "posts (db sys_three) = [posted_demo 1 ''v1'' 10, posted_demo 2 ''v2'' 20, posted_demo 3 ''v3'' 30]"
  "getTikTokAccount 1 sys_three = Some demo_account"
  "analytics_rows 1 sys_three = []"
  "analytics_rows 2 sys_three = [old_row]"
  "analytics_rows 3 sys_three = []"
  "trace sys_three = []"
  by (simp_all add: sys_three_def getTikTokAccount_def demo_account_def analytics_rows_def old_row_def)

lemma postedPosts_sys_three:
  "postedPosts sys_three = [posted_demo 3 ''v3'' 30, posted_demo 2 ''v2'' 20, posted_demo 1 ''v1'' 10]"
  by (simp add: postedPosts_def getPosts_def orderBy_desc_def sys_three_simps posted_demo_simps
        mockUserId_def truthy_def)

lemma standin_analytics_simps:
  "getVideoAnalytics (standin_analytics f) w token ids = (f ids, w)"
  "new_Date (standin_analytics f) w = (w, Suc w)"
  by (simp_all add: standin_analytics_def)

lemma created_posted_simps:
  "getPost 1 (snd (createPost (standin_ok ''mock_post_1'') (demo_insert\<lparr>i_status := Some Posted\<rparr>) demo_system))
     = Inr (Some (inserted_post 1 1000 (demo_insert\<lparr>i_status := Some Posted\<rparr>)))"
  by (simp add: createPost_def js_new_Date_eq standin_ok_def demo_system_def
        Let_def emit_def getPost_def int4_def inserted_post_def)

section \<open>The claims\<close>

subsection \<open>C1: posted status and the remote post identifier\<close>

text \<open>
  C1, as the code has it. The spec asks that a post is \<^verbatim>\<open>posted\<close> if and only
  if its \<^verbatim>\<open>tiktokPostId\<close> and \<^verbatim>\<open>postedAt\<close> are set, after every operation.
  What the routes maintain is one direction: if every stored post that is
  \<^verbatim>\<open>posted\<close> has both fields set, the same holds after the publish route (whatever
  the post, the account and the client's answer) and after the sync route, which writes no
  post at all.
\<close>

theorem publish_and_sync_keep_posted_inv:
  assumes "list_all posted_inv (posts (db s))"
  shows "list_all posted_inv (posts (db (snd (publish env req pid s))))
       \<and> list_all posted_inv (posts (db (snd (syncAnalytics env s))))"
proof -
  have upd: "list_all posted_inv (posts (db (snd (updatePost env i u s'))))"
    if "list_all posted_inv (posts (db s'))" "u_status u = Some st"
      "st = Posted \<longrightarrow> u_tiktokPostId u \<noteq> None \<and> u_postedAt u \<noteq> None"
    for i u st and s' :: "'a System"
    using that
    by (auto simp: updatePost_posts list_all_iff posted_inv_def set_post_fields assigned_null_def
          split: option.splits)
  have sync: "list_all posted_inv (posts (db (snd (syncAnalytics env s))))"
    using assms by (simp add: syncAnalytics_def fold_sync_db)
  have pub: "list_all posted_inv (posts (db (snd (publish env req pid s))))"
  proof (cases "getPost pid s")
    case (Inl e)
    then show ?thesis using assms by (simp add: publish_def)
  next
    case (Inr x)
    show ?thesis
    proof (cases x)
      case None
      with Inr show ?thesis using assms by (simp add: publish_def)
    next
      case (Some post)
      with Inr have gp: "getPost pid s = Inr (Some post)" by simp
      show ?thesis
      proof (cases "getTikTokAccount (tiktokAccountId post) s")
        case None
        then show ?thesis using assms gp by (simp add: publish_def)
      next
        case (Some acct)
        let ?s1 = "snd (updatePost env pid (no_updates\<lparr>u_status := Some Posting\<rparr>) s)"
        have 1: "list_all posted_inv (posts (db ?s1))"
          by (rule upd [OF assms, where st = Posting]) (simp_all add: no_updates_def)
        have 2: "list_all posted_inv (posts (db (snd (publish_attempt env req pid post acct ?s1))))"
        proof -
          let ?url = "protocol req @ ''://'' @ host req @ videoUrl post"
          obtain r w where c: "postVideoFromUrl env (remote ?s1) (accessToken acct) ?url (postInfo post) = (r, w)"
            by (cases "postVideoFromUrl env (remote ?s1) (accessToken acct) ?url (postInfo post)")
          let ?s2 = "emit (ApiPostVideoFromUrl (accessToken acct) ?url (postInfo post)) (?s1\<lparr>remote := w\<rparr>)"
          have inv2: "list_all posted_inv (posts (db ?s2))"
            using 1 by (simp add: emit_def)
          show ?thesis
          proof (cases r)
            case (Inl m)
            let ?u = "no_updates\<lparr>u_status := Some Failed, u_errorMessage := Some m\<rparr>"
            have "snd (publish_attempt env req pid post acct ?s1) = snd (updatePost env pid ?u ?s2)"
              using c Inl by (simp add: publish_attempt_def api_postVideoFromUrl_def case_prod_beta)
            moreover have "list_all posted_inv (posts (db (snd (updatePost env pid ?u ?s2))))"
              by (rule upd [OF inv2, where st = Failed]) simp_all
            ultimately show ?thesis by simp
          next
            case (Inr result)
            let ?s3 = "?s2\<lparr>remote := snd (new_Date env (remote ?s2))\<rparr>"
            let ?u = "no_updates\<lparr>u_status := Some Posted,
                        u_tiktokPostId := Some (publish_id result),
                        u_postedAt := Some (fst (new_Date env (remote ?s2)))\<rparr>"
            have "snd (publish_attempt env req pid post acct ?s1) = snd (updatePost env pid ?u ?s3)"
              using c Inr
              by (simp add: publish_attempt_def api_postVideoFromUrl_def js_new_Date_eq case_prod_beta)
            moreover have "list_all posted_inv (posts (db ?s3))"
              using inv2 by simp
            then have "list_all posted_inv (posts (db (snd (updatePost env pid ?u ?s3))))"
              by (rule upd [where st = Posted]) simp_all
            ultimately show ?thesis by simp
          qed
        qed
        show ?thesis
          using 2 gp Some
          by (simp add: publish_def case_prod_beta split: sum.splits)
      qed
    qed
  qed
  from pub sync show ?thesis by simp
qed

text \<open>
  The invariant on the draft system, and on the system after a successful publish, where
  the post is \<^verbatim>\<open>posted\<close> and carries the client's identifier.
\<close>

theorem publish_and_sync_keep_posted_inv_witness:
  "list_all posted_inv (posts (db sys_draft))
   \<and> list_all posted_inv (posts (db sys_posted))
   \<and> map_option status (found (getPost 1 sys_posted)) = Some (Some Posted)
   \<and> map_option tiktokPostId (found (getPost 1 sys_posted)) = Some (Some ''mock_post_1'')
   \<and> list_all posted_inv (posts (db (snd (syncAnalytics (standin_ok ''mock_post_1'') sys_draft))))"
proof -
  have h: "list_all posted_inv (posts (db sys_draft))"
    by (simp add: sys_draft_simps posted_inv_def inserted_demo_simps)
  show ?thesis
    using publish_and_sync_keep_posted_inv [OF h, of "standin_ok ''mock_post_1''" demo_req 1] h
    by (simp add: sys_posted_simps sys_posted_def [symmetric])
qed

text \<open>
  The equivalence itself fails in both directions. \<^verbatim>\<open>createPost\<close> stores what
  \<^verbatim>\<open>insertPostSchema\<close> accepts, and that is a \<^verbatim>\<open>posted\<close> status with no
  \<^verbatim>\<open>tiktokPostId\<close>. And publishing the posted post again with a client that
  throws leaves it \<^verbatim>\<open>failed\<close> with \<^verbatim>\<open>tiktokPostId\<close> and \<^verbatim>\<open>postedAt\<close>
  still set.
\<close>

theorem posted_iff_remote_id_counterexample:
  "map_option status
     (found (getPost 1 (snd (createPost (standin_ok ''mock_post_1'') (demo_insert\<lparr>i_status := Some Posted\<rparr>) demo_system))))
     = Some (Some Posted)
   \<and> map_option tiktokPostId
     (found (getPost 1 (snd (createPost (standin_ok ''mock_post_1'') (demo_insert\<lparr>i_status := Some Posted\<rparr>) demo_system))))
     = Some None
   \<and> map_option status (found (getPost 1 (snd (publish standin_fail demo_req 1 sys_posted)))) = Some (Some Failed)
   \<and> map_option tiktokPostId (found (getPost 1 (snd (publish standin_fail demo_req 1 sys_posted))))
       = Some (Some ''mock_post_1'')
   \<and> map_option postedAt (found (getPost 1 (snd (publish standin_fail demo_req 1 sys_posted))))
       = Some (Some 1002)"
proof -
  obtain post where p: "getPost 1 sys_posted = Inr (Some post)"
    using found_map_SomeE [OF sys_posted_simps(1)] by blast
  have f: "tiktokAccountId post = 1" "tiktokPostId post = Some ''mock_post_1''"
    "postedAt post = Some 1002"
    using sys_posted_simps p by auto
  have a: "getTikTokAccount (tiktokAccountId post) sys_posted = Some demo_account"
    by (simp add: f sys_posted_simps)
  have c: "postVideoFromUrl standin_fail (snd (new_Date standin_fail (remote sys_posted)))
            (accessToken demo_account)
            (protocol demo_req @ ''://'' @ host demo_req @ videoUrl post) (postInfo post)
           = (Inl ''Failed to post video from URL: timeout'', snd (new_Date standin_fail (remote sys_posted)))"
    by (simp add: standin_simps)
  have cr: "map_option status
     (found (getPost 1 (snd (createPost (standin_ok ''mock_post_1'') (demo_insert\<lparr>i_status := Some Posted\<rparr>) demo_system))))
     = Some (Some Posted)"
    "map_option tiktokPostId
     (found (getPost 1 (snd (createPost (standin_ok ''mock_post_1'') (demo_insert\<lparr>i_status := Some Posted\<rparr>) demo_system))))
     = Some None"
    unfolding created_posted_simps
    by (simp_all add: inserted_post_def demo_insert_def defaulted_def)
  show ?thesis
    using publish_on_error [OF p a c] p f cr
    by (simp add: set_post_fields no_updates_def assigned_null_simps)
qed

subsection \<open>C2: a failed remote call\<close>

text \<open>
  C2, as the code has it. For an existing post with an existing account, when the
  client's \<^verbatim>\<open>postVideoFromUrl\<close> throws an error with message \<open>m\<close>, the route
  stores status \<^verbatim>\<open>failed\<close> and \<^verbatim>\<open>errorMessage = m\<close>, does not write
  \<^verbatim>\<open>tiktokPostId\<close> (it keeps the value it had, so it stays null when it was null),
  the inner block re-throws the error (\<open>Inl m\<close>), and the caller receives it as the
  500 response carrying \<open>m\<close>.
\<close>

theorem publish_failure_persists_failed:
  assumes "getPost pid s = Inr (Some post)"
    and "getTikTokAccount (tiktokAccountId post) s = Some acct"
    and "postVideoFromUrl env (snd (new_Date env (remote s))) (accessToken acct)
           (protocol req @ ''://'' @ host req @ videoUrl post) (postInfo post) = (Inl m, w)"
  shows "\<exists>p'. getPost pid (snd (publish env req pid s)) = Inr (Some p')
           \<and> status p' = Some Failed \<and> errorMessage p' = Some m
           \<and> tiktokPostId p' = tiktokPostId post
           \<and> fst (publish_attempt env req pid post acct
                    (snd (updatePost env pid (no_updates\<lparr>u_status := Some Posting\<rparr>) s))) = Inl m
           \<and> fst (publish env req pid s) = Response 500 (Message m)"
proof -
  have "fst (publish_attempt env req pid post acct
              (snd (updatePost env pid (no_updates\<lparr>u_status := Some Posting\<rparr>) s))) = Inl m"
    using assms(3)
    by (simp add: publish_attempt_def api_postVideoFromUrl_def case_prod_beta updatePost_other)
  then show ?thesis
    using publish_on_error [OF assms]
    by (simp add: set_post_fields no_updates_def assigned_null_simps)
qed

text \<open>
  The draft post with the client that always throws.
\<close>

theorem publish_failure_witness:
  "getPost 1 sys_draft = Inr (Some (inserted_post 1 1000 demo_insert))
   \<and> getTikTokAccount 1 sys_draft = Some demo_account
   \<and> map_option status (found (getPost 1 (snd (publish standin_fail demo_req 1 sys_draft)))) = Some (Some Failed)
   \<and> map_option errorMessage (found (getPost 1 (snd (publish standin_fail demo_req 1 sys_draft))))
       = Some (Some ''Failed to post video from URL: timeout'')
   \<and> map_option tiktokPostId (found (getPost 1 (snd (publish standin_fail demo_req 1 sys_draft)))) = Some None
   \<and> fst (publish standin_fail demo_req 1 sys_draft)
       = Response 500 (Message ''Failed to post video from URL: timeout'')"
  using publish_failure_persists_failed [where pid = 1 and s = sys_draft
      and post = "inserted_post 1 1000 demo_insert" and acct = demo_account
      and env = standin_fail and req = demo_req
      and m = "''Failed to post video from URL: timeout''" and w = 1002]
  by (auto simp: sys_draft_simps inserted_demo_simps standin_simps)

text \<open>
  \<^verbatim>\<open>tiktokPostId\<close> is not null after every failed publish: the post published
  before keeps its identifier when a second publish fails.
\<close>

theorem publish_failure_keeps_remote_id_counterexample:
  "map_option tiktokPostId (found (getPost 1 sys_posted)) = Some (Some ''mock_post_1'')
   \<and> getTikTokAccount 1 sys_posted = Some demo_account
   \<and> fst (publish standin_fail demo_req 1 sys_posted)
       = Response 500 (Message ''Failed to post video from URL: timeout'')
   \<and> map_option status (found (getPost 1 (snd (publish standin_fail demo_req 1 sys_posted)))) = Some (Some Failed)
   \<and> map_option tiktokPostId (found (getPost 1 (snd (publish standin_fail demo_req 1 sys_posted))))
       = Some (Some ''mock_post_1'')"
proof -
  obtain post where p: "getPost 1 sys_posted = Inr (Some post)"
    using found_map_SomeE [OF sys_posted_simps(1)] by blast
  have f: "tiktokAccountId post = 1" "tiktokPostId post = Some ''mock_post_1''"
    using sys_posted_simps p by auto
  have a: "getTikTokAccount (tiktokAccountId post) sys_posted = Some demo_account"
    by (simp add: f sys_posted_simps)
  have c: "postVideoFromUrl standin_fail (snd (new_Date standin_fail (remote sys_posted)))
            (accessToken demo_account)
            (protocol demo_req @ ''://'' @ host demo_req @ videoUrl post) (postInfo post)
           = (Inl ''Failed to post video from URL: timeout'', snd (new_Date standin_fail (remote sys_posted)))"
    by (simp add: standin_simps)
  show ?thesis
    using publish_on_error [OF p a c] p f
    by (simp add: sys_posted_simps set_post_fields no_updates_def assigned_null_simps)
qed

subsection \<open>C3: a successful remote call\<close>

text \<open>
  C3, as the code has it. For an existing post in status \<^verbatim>\<open>draft\<close> or
  \<^verbatim>\<open>failed\<close> with an existing account, when the client returns a result, the route
  stores status \<^verbatim>\<open>posted\<close>, \<^verbatim>\<open>tiktokPostId\<close> the result's
  \<^verbatim>\<open>publish_id\<close> and \<^verbatim>\<open>postedAt\<close> the time read after the call, and answers
  200 with the updated post. \<^verbatim>\<open>errorMessage\<close> is not among the written fields: it
  keeps the value it had.
\<close>

theorem publish_success_persists_posted:
  assumes "getPost pid s = Inr (Some post)"
    and "getTikTokAccount (tiktokAccountId post) s = Some acct"
    and "status post = Some Draft \<or> status post = Some Failed"
    and "postVideoFromUrl env (snd (new_Date env (remote s))) (accessToken acct)
           (protocol req @ ''://'' @ host req @ videoUrl post) (postInfo post) = (Inr result, w)"
  shows "\<exists>p'. getPost pid (snd (publish env req pid s)) = Inr (Some p')
           \<and> fst (publish env req pid s) = Response 200 (PostJson (Some p'))
           \<and> status p' = Some Posted
           \<and> tiktokPostId p' = Some (publish_id result)
           \<and> postedAt p' = Some (fst (new_Date env w))
           \<and> errorMessage p' = errorMessage post"
  using publish_on_result [OF assms(1,2,4)]
  by (simp add: set_post_fields no_updates_def assigned_null_simps)

text \<open>
  The draft post with the client that always publishes: \<^verbatim>\<open>errorMessage\<close> was
  null and stays null.
\<close>

theorem publish_success_witness:
  "getPost 1 sys_draft = Inr (Some (inserted_post 1 1000 demo_insert))
   \<and> getTikTokAccount 1 sys_draft = Some demo_account
   \<and> status (inserted_post 1 1000 demo_insert) = Some Draft
   \<and> map_option status (found (getPost 1 sys_posted)) = Some (Some Posted)
   \<and> map_option tiktokPostId (found (getPost 1 sys_posted)) = Some (Some ''mock_post_1'')
   \<and> map_option postedAt (found (getPost 1 sys_posted)) = Some (Some 1002)
   \<and> map_option errorMessage (found (getPost 1 sys_posted)) = Some None
   \<and> fst (publish (standin_ok ''mock_post_1'') demo_req 1 sys_draft)
       = Response 200 (PostJson (found (getPost 1 sys_posted)))"
  using publish_success_persists_posted [where pid = 1 and s = sys_draft
      and post = "inserted_post 1 1000 demo_insert" and acct = demo_account
      and env = "standin_ok ''mock_post_1''" and req = demo_req
      and result = "\<lparr> publish_id = ''mock_post_1'' \<rparr>" and w = 1002]
  by (auto simp: sys_draft_simps inserted_demo_simps standin_simps sys_posted_def)

text \<open>
  \<^verbatim>\<open>errorMessage\<close> is not cleared: the failed post, published again with success,
  is \<^verbatim>\<open>posted\<close> and still carries the message of the earlier failure.
\<close>

theorem publish_success_keeps_error_counterexample:
  "map_option status (found (getPost 1 sys_failed)) = Some (Some Failed)
   \<and> map_option errorMessage (found (getPost 1 sys_failed))
       = Some (Some ''Failed to post video from URL: timeout'')
   \<and> getTikTokAccount 1 sys_failed = Some demo_account
   \<and> map_option status (found (getPost 1 (snd (publish (standin_ok ''mock_post_2'') demo_req 1 sys_failed))))
       = Some (Some Posted)
   \<and> map_option tiktokPostId (found (getPost 1 (snd (publish (standin_ok ''mock_post_2'') demo_req 1 sys_failed))))
       = Some (Some ''mock_post_2'')
   \<and> map_option errorMessage (found (getPost 1 (snd (publish (standin_ok ''mock_post_2'') demo_req 1 sys_failed))))
       = Some (Some ''Failed to post video from URL: timeout'')"
proof -
  obtain post where p: "getPost 1 sys_failed = Inr (Some post)"
    using found_map_SomeE [OF sys_failed_simps(1)] by blast
  have f: "tiktokAccountId post = 1" "status post = Some Failed"
    "errorMessage post = Some ''Failed to post video from URL: timeout''"
    using sys_failed_simps p by auto
  have a: "getTikTokAccount (tiktokAccountId post) sys_failed = Some demo_account"
    by (simp add: f sys_failed_simps)
  have c: "postVideoFromUrl (standin_ok ''mock_post_2'')
            (snd (new_Date (standin_ok ''mock_post_2'') (remote sys_failed)))
            (accessToken demo_account)
            (protocol demo_req @ ''://'' @ host demo_req @ videoUrl post) (postInfo post)
           = (Inr \<lparr> publish_id = ''mock_post_2'' \<rparr>,
              snd (new_Date (standin_ok ''mock_post_2'') (remote sys_failed)))"
    by (simp add: standin_simps)
  show ?thesis
    using publish_on_result [OF p a c] p f
    by (simp add: sys_failed_simps set_post_fields no_updates_def assigned_null_simps)
qed

subsection \<open>C4: the sync sweep goes on after a failure\<close>

text \<open>
  C4. The sweep goes on after a failure and the route always answers 200 with its success
  message, as the claim says; but no analytics row is written for a post whose fetch
  succeeds. The upsert of such a post is sent and refused (the table has no unique index
  on \<^verbatim>\<open>post_id\<close>), the \<^verbatim>\<open>catch\<close> of the loop body swallows the error, and
  the table stays as it was, for every client and every system. On the example: three
  posted posts, a client that throws for the second. The upserts for the third and the
  first are both sent, the first after the failure of the second, and neither post has a
  row at the end.
\<close>

theorem sync_upserts_write_no_row:
  "fst (syncAnalytics env s) = Response 200 (Message ''Analytics synced successfully'')
   \<and> postAnalytics (db (snd (syncAnalytics env s))) = postAnalytics (db s)
   \<and> postedPosts sys_three
       = [posted_demo 3 ''v3'' 30, posted_demo 2 ''v2'' 20, posted_demo 1 ''v1'' 10]
   \<and> fst (syncAnalytics (standin_analytics fails_v2) sys_three)
       = Response 200 (Message ''Analytics synced successfully'')
   \<and> upsert_events 3 (trace (snd (syncAnalytics (standin_analytics fails_v2) sys_three)))
       = [DbUpsertPostAnalytics (sync_data (posted_demo 3 ''v3'' 30) demo_metrics)]
   \<and> upsert_events 2 (trace (snd (syncAnalytics (standin_analytics fails_v2) sys_three))) = []
   \<and> upsert_events 1 (trace (snd (syncAnalytics (standin_analytics fails_v2) sys_three)))
       = [DbUpsertPostAnalytics (sync_data (posted_demo 1 ''v1'' 10) demo_metrics)]
   \<and> getPostAnalytics 3 (snd (syncAnalytics (standin_analytics fails_v2) sys_three)) = None
   \<and> getPostAnalytics 1 (snd (syncAnalytics (standin_analytics fails_v2) sys_three)) = None"
proof -
  let ?env = "standin_analytics fails_v2"
  let ?p1 = "posted_demo 1 ''v1'' 10"
  let ?p2 = "posted_demo 2 ''v2'' 20"
  let ?p3 = "posted_demo 3 ''v3'' 30"
  have gen: "postAnalytics (db (snd (syncAnalytics env s))) = postAnalytics (db s)"
    by (simp add: syncAnalytics_def fold_sync_db)
  have rows: "getPostAnalytics q (snd (syncAnalytics ?env sys_three)) = getPostAnalytics q sys_three"
    for q
    by (simp add: getPostAnalytics_def syncAnalytics_def fold_sync_db)
  have none: "getPostAnalytics 3 sys_three = None" "getPostAnalytics 1 sys_three = None"
    by (simp_all add: getPostAnalytics_rows sys_three_simps)
  have acc: "getTikTokAccount 1 s' = Some demo_account"
    if "tiktokAccounts (db s') = [demo_account]" for s' :: "nat System"
    using that by (simp add: getTikTokAccount_def demo_account_def)
  have step3: "sync_post ?env ?p3 s'
      = snd (upsertPostAnalytics ?env (sync_data ?p3 demo_metrics)
               (emit (ApiGetVideoAnalytics ''token'' [''v3'']) s'))"
    if "tiktokAccounts (db s') = [demo_account]" for s' :: "nat System"
    using sync_post_cases [of ?p3 s' demo_account ?env "Inr [''v3'' \<mapsto> demo_metrics]" "remote s'"]
      acc [OF that]
    by (simp add: posted_demo_simps truthy_def standin_analytics_simps fails_v2_def demo_account_def)
  have step2: "sync_post ?env ?p2 s' = emit (ApiGetVideoAnalytics ''token'' [''v2'']) s'"
    if "tiktokAccounts (db s') = [demo_account]" for s' :: "nat System"
    using sync_post_cases [of ?p2 s' demo_account ?env "Inl ''Failed to get analytics: timeout''" "remote s'"]
      acc [OF that]
    by (simp add: posted_demo_simps truthy_def standin_analytics_simps fails_v2_def demo_account_def)
  have step1: "sync_post ?env ?p1 s'
      = snd (upsertPostAnalytics ?env (sync_data ?p1 demo_metrics)
               (emit (ApiGetVideoAnalytics ''token'' [''v1'']) s'))"
    if "tiktokAccounts (db s') = [demo_account]" for s' :: "nat System"
    using sync_post_cases [of ?p1 s' demo_account ?env "Inr [''v1'' \<mapsto> demo_metrics]" "remote s'"]
      acc [OF that]
    by (simp add: posted_demo_simps truthy_def standin_analytics_simps fails_v2_def demo_account_def)
  have a0: "tiktokAccounts (db sys_three) = [demo_account]"
    by (simp add: sys_three_def)
  have tr: "trace (snd (syncAnalytics ?env sys_three))
      = [ApiGetVideoAnalytics ''token'' [''v3''],
         DbUpsertPostAnalytics (sync_data ?p3 demo_metrics),
         ApiGetVideoAnalytics ''token'' [''v2''],
         ApiGetVideoAnalytics ''token'' [''v1''],
         DbUpsertPostAnalytics (sync_data ?p1 demo_metrics)]"
    by (simp add: syncAnalytics_def postedPosts_sys_three step3 step2 step1 a0 upsert_simps
          emit_simps sys_three_simps)
  have ids: "a_postId (sync_data ?p3 demo_metrics) = 3" "a_postId (sync_data ?p1 demo_metrics) = 1"
    by (simp_all add: sync_data_def posted_demo_simps)
  show ?thesis
    by (simp add: gen rows none tr ids upsert_events_def postedPosts_sys_three)
      (simp add: syncAnalytics_def)
qed

subsection \<open>C5: upsert by post identifier\<close>

text \<open>
  C5. The method is written as an upsert by \<^verbatim>\<open>postId\<close>, but it neither inserts nor
  overwrites: the table has no unique index on \<^verbatim>\<open>post_id\<close>, so the statement is
  refused and the method raises, for every client, every data and every system, and the
  table is left as it was. On the example: the first post has no row, an upsert for it is
  sent, and it still has no row.
\<close>

theorem upsertPostAnalytics_raises:
  "fst (upsertPostAnalytics env d s) = Inl NoUniqueConstraint
   \<and> postAnalytics (db (snd (upsertPostAnalytics env d s))) = postAnalytics (db s)
   \<and> getPostAnalytics 1 sys_three = None
   \<and> fst (upsertPostAnalytics (standin_ok ''mock_post_1'')
            (sync_data (posted_demo 1 ''v1'' 10) demo_metrics) sys_three)
       = Inl NoUniqueConstraint
   \<and> getPostAnalytics 1 (snd (upsertPostAnalytics (standin_ok ''mock_post_1'')
         (sync_data (posted_demo 1 ''v1'' 10) demo_metrics) sys_three)) = None"
  by (simp add: upsert_simps getPostAnalytics_def sys_three_def old_row_def)

subsection \<open>C6: not found\<close>

text \<open>
  C6, as the code has it. For a post identifier in the range of the \<^verbatim>\<open>id\<close> column:
  when the post is absent, and when the post's account is absent, the publish route
  answers 404 and returns the system as it was: no write, no remote call, nothing added
  to the trace. When both exist the answer is never 404; the account's
  \<^verbatim>\<open>isActive\<close> flag is not read. For an identifier outside the range the lookup
  raises and the route answers 500 with the message of the error, the system again as it
  was.
\<close>

theorem publish_not_found:
  "(int4 pid \<and> getPost pid s = Inr None \<longrightarrow>
      publish env req pid s = (Response 404 (Message ''Post not found''), s))
   \<and> (\<forall>post. int4 pid \<and> getPost pid s = Inr (Some post)
          \<and> getTikTokAccount (tiktokAccountId post) s = None \<longrightarrow>
        publish env req pid s = (Response 404 (Message ''TikTok account not found''), s))
   \<and> (\<forall>post acct. int4 pid \<and> getPost pid s = Inr (Some post)
          \<and> getTikTokAccount (tiktokAccountId post) s = Some acct \<longrightarrow>
        (\<forall>b. fst (publish env req pid s) \<noteq> Response 404 b))
   \<and> (\<not> int4 pid \<longrightarrow>
        getPost pid s = Inl (IntegerOutOfRange pid)
        \<and> publish env req pid s
            = (Response 500 (Message (db_message env (IntegerOutOfRange pid))), s))"
proof -
  have "fst (publish env req pid s) \<noteq> Response 404 b"
    if "getPost pid s = Inr (Some post)" "getTikTokAccount (tiktokAccountId post) s = Some acct"
    for post acct b
    using that by (simp add: publish_def case_prod_beta split: sum.splits)
  moreover have "getPost pid s = Inl (IntegerOutOfRange pid)" if "\<not> int4 pid"
    using that by (simp add: getPost_def)
  ultimately show ?thesis
    by (simp add: publish_def)
qed

text \<open>
  A missing post, a post whose account is deleted, the draft with its account, and an
  identifier beyond the range of the column.
\<close>

theorem publish_not_found_witness:
  "int4 2 \<and> getPost 2 sys_draft = Inr None
   \<and> publish (standin_ok ''mock_post_1'') demo_req 2 sys_draft
       = (Response 404 (Message ''Post not found''), sys_draft)
   \<and> int4 1 \<and> getPost 1 sys_orphan = Inr (Some (inserted_post 1 1000 demo_insert))
   \<and> getTikTokAccount 1 sys_orphan = None
   \<and> publish (standin_ok ''mock_post_1'') demo_req 1 sys_orphan
       = (Response 404 (Message ''TikTok account not found''), sys_orphan)
   \<and> getPost 1 sys_draft = Inr (Some (inserted_post 1 1000 demo_insert))
   \<and> getTikTokAccount 1 sys_draft = Some demo_account
   \<and> fst (publish (standin_ok ''mock_post_1'') demo_req 1 sys_draft)
       \<noteq> Response 404 (Message ''TikTok account not found'')
   \<and> \<not> int4 99999999999
   \<and> publish (standin_ok ''mock_post_1'') demo_req 99999999999 sys_draft
       = (Response 500 (Message ''value is out of range for type integer''), sys_draft)"
  using publish_not_found [where pid = 2 and s = sys_draft
      and env = "standin_ok ''mock_post_1''" and req = demo_req]
    publish_not_found [where pid = 1 and s = sys_orphan
      and env = "standin_ok ''mock_post_1''" and req = demo_req]
    publish_not_found [where pid = 1 and s = sys_draft
      and env = "standin_ok ''mock_post_1''" and req = demo_req]
    publish_not_found [where pid = 99999999999 and s = sys_draft
      and env = "standin_ok ''mock_post_1''" and req = demo_req]
  by (simp add: sys_draft_simps sys_orphan_simps inserted_demo_simps int4_def standin_simps
        standin_message_def)

text \<open>
  An inactive account is not rejected: the route calls the client and the post is
  \<^verbatim>\<open>posted\<close>.
\<close>

theorem publish_inactive_account_counterexample:
  "map_option isActive (getTikTokAccount 1 sys_inactive) = Some (Some False)
   \<and> fst (publish (standin_ok ''mock_post_1'') demo_req 1 sys_inactive)
       = Response 200 (PostJson (found (getPost 1 (snd (publish (standin_ok ''mock_post_1'') demo_req 1 sys_inactive)))))
   \<and> map_option status (found (getPost 1 (snd (publish (standin_ok ''mock_post_1'') demo_req 1 sys_inactive))))
       = Some (Some Posted)
   \<and> trace (snd (publish (standin_ok ''mock_post_1'') demo_req 1 sys_inactive))
       = [DbInsertPost demo_insert,
          DbUpdatePost 1 (no_updates\<lparr>u_status := Some Posting\<rparr>),
          ApiPostVideoFromUrl ''token'' ''http://localhost/uploads/f1''
            (postInfo (inserted_post 1 1000 demo_insert)),
          DbUpdatePost 1 (no_updates\<lparr>u_status := Some Posted,
                                     u_tiktokPostId := Some ''mock_post_1'',
                                     u_postedAt := Some 1002\<rparr>)]"
proof -
  have a: "getTikTokAccount (tiktokAccountId (inserted_post 1 1000 demo_insert)) sys_inactive
            = Some (demo_account\<lparr>isActive := Some False\<rparr>)"
    by (simp add: inserted_demo_simps sys_inactive_simps)
  have c: "postVideoFromUrl (standin_ok ''mock_post_1'')
            (snd (new_Date (standin_ok ''mock_post_1'') (remote sys_inactive)))
            (accessToken (demo_account\<lparr>isActive := Some False\<rparr>))
            (protocol demo_req @ ''://'' @ host demo_req @ videoUrl (inserted_post 1 1000 demo_insert))
            (postInfo (inserted_post 1 1000 demo_insert))
           = (Inr \<lparr> publish_id = ''mock_post_1'' \<rparr>, 1002)"
    by (simp add: standin_simps sys_inactive_simps)
  show ?thesis
    using publish_on_result [OF sys_inactive_simps(1) a c]
    by (simp add: sys_inactive_simps set_post_fields no_updates_def assigned_null_simps
          standin_simps demo_account_def demo_req_def inserted_post_def demo_insert_def)
qed

subsection \<open>C7: the order of the writes and the remote call\<close>



subsection \<open>C8: an identifier the remote client does not know\<close>

text \<open>
  C8. Let \<open>p\<close> be a post of the sweep for which the client answers with a mapping
  that has no entry for the post's \<^verbatim>\<open>tiktokPostId\<close>. Then at the end of the sweep
  the analytics rows of \<open>p\<close> are what they were before it, and the sweep sent no
  upsert for \<open>p\<close>.
\<close>

theorem sync_unknown_id_no_upsert:
  assumes "distinct (map post_id (posts (db s)))"
    and "postedPosts s = xs @ p # ys"
    and "getTikTokAccount (tiktokAccountId p) s = Some acct"
    and "getVideoAnalytics env (remote (fold (sync_post env) xs s)) (accessToken acct)
            [the (tiktokPostId p)] = (Inr m, w)"
    and "m (the (tiktokPostId p)) = None"
  shows "analytics_rows (post_id p) (snd (syncAnalytics env s)) = analytics_rows (post_id p) s
     \<and> getPostAnalytics (post_id p) (snd (syncAnalytics env s)) = getPostAnalytics (post_id p) s
     \<and> upsert_events (post_id p) (trace (snd (syncAnalytics env s)))
         = upsert_events (post_id p) (trace s)"
proof -
  let ?S = "fold (sync_post env) xs s"
  let ?S1 = "emit (ApiGetVideoAnalytics (accessToken acct) [the (tiktokPostId p)]) (?S\<lparr>remote := w\<rparr>)"
  have t: "truthy (tiktokPostId p)" by (rule posted_member(1) [OF assms(2)])
  have acc: "getTikTokAccount (tiktokAccountId p) ?S = Some acct"
    by (simp add: getTikTokAccount_fold_sync assms(3))
  have step: "sync_post env p ?S = ?S1"
    using sync_post_cases [OF t acc assms(4)] assms(5) by simp
  have sp: "snd (syncAnalytics env s) = fold (sync_post env) ys ?S1"
    using syncAnalytics_split [OF assms(2), of env] step by simp
  note ids = posted_split_ids [OF assms(1,2)]
  have rows: "analytics_rows (post_id p) (snd (syncAnalytics env s)) = analytics_rows (post_id p) s"
    by (simp add: sp fold_sync_rows analytics_rows_frame)
  have ev: "upsert_events (post_id p) (trace (snd (syncAnalytics env s)))
              = upsert_events (post_id p) (trace s)"
  proof -
    have "upsert_events (post_id p) (trace ?S1) = upsert_events (post_id p) (trace ?S)"
      by (simp add: emit_simps upsert_events_def)
    then show ?thesis
      by (simp add: sp fold_sync_events_other ids)
  qed
  from rows ev show ?thesis
    by (simp add: getPostAnalytics_rows)
qed

text \<open>
  Three posted posts, a client that does not know the second: the row stored for it is
  unchanged and the trace has no upsert for it.
\<close>

theorem sync_unknown_id_no_upsert_witness:
  "distinct (map post_id (posts (db sys_three)))
   \<and> postedPosts sys_three = [posted_demo 3 ''v3'' 30] @ posted_demo 2 ''v2'' 20 # [posted_demo 1 ''v1'' 10]
   \<and> getTikTokAccount 1 sys_three = Some demo_account
   \<and> unknown_v2 [''v2''] = Inr Map.empty
   \<and> getPostAnalytics 2 sys_three = Some old_row
   \<and> getPostAnalytics 2 (snd (syncAnalytics (standin_analytics unknown_v2) sys_three)) = Some old_row
   \<and> upsert_events 2 (trace (snd (syncAnalytics (standin_analytics unknown_v2) sys_three))) = []"
proof -
  let ?env = "standin_analytics unknown_v2"
  have d: "distinct (map post_id (posts (db sys_three)))"
    by (simp add: sys_three_simps posted_demo_simps)
  have s2: "postedPosts sys_three
             = [posted_demo 3 ''v3'' 30] @ posted_demo 2 ''v2'' 20 # [posted_demo 1 ''v1'' 10]"
    by (simp add: postedPosts_sys_three)
  have a: "getTikTokAccount (tiktokAccountId (posted_demo 2 ''v2'' 20)) sys_three = Some demo_account"
    by (simp add: posted_demo_simps sys_three_simps)
  have u: "unknown_v2 [''v2''] = Inr Map.empty"
    by (simp add: unknown_v2_def)
  have c: "getVideoAnalytics ?env w (accessToken demo_account) [the (tiktokPostId (posted_demo 2 ''v2'' 20))]
             = (Inr Map.empty, w)" for w
    by (simp add: standin_analytics_simps u posted_demo_simps)
  have e: "Map.empty (the (tiktokPostId (posted_demo 2 ''v2'' 20))) = (None :: TikTokAnalytics option)"
    by simp
  have g: "getPostAnalytics 2 sys_three = Some old_row"
    by (simp add: getPostAnalytics_rows sys_three_simps)
  show ?thesis
    using sync_unknown_id_no_upsert [OF d s2 a c e] d s2 u g
    by (simp add: posted_demo_simps sys_three_simps upsert_events_def)
qed

subsection \<open>C9: the privacy levels\<close>

text \<open>
  C9. Whatever the other fields of the post, the \<^verbatim>\<open>post_info\<close> the publish route
  builds maps \<^verbatim>\<open>public\<close> to \<^verbatim>\<open>PUBLIC_TO_EVERYONE\<close>, \<^verbatim>\<open>friends\<close> to
  \<^verbatim>\<open>MUTUAL_FOLLOW_FRIEND\<close> and \<^verbatim>\<open>private\<close> to \<^verbatim>\<open>SELF_ONLY\<close>.
\<close>

theorem privacy_level_mapping:
  "privacy_level (postInfo (p\<lparr>privacyLevel := Some Public\<rparr>)) = PUBLIC_TO_EVERYONE
   \<and> privacy_level (postInfo (p\<lparr>privacyLevel := Some Friends\<rparr>)) = MUTUAL_FOLLOW_FRIEND
   \<and> privacy_level (postInfo (p\<lparr>privacyLevel := Some Private\<rparr>)) = SELF_ONLY"
  by (simp add: postInfo_def)

subsection \<open>C10: no precondition on the status\<close>



end
